theory Spec2Isabelle
  imports Main "HOL-Library.Word"
begin

section \<open>Values\<close>

text \<open>
  The module \<^verbatim>\<open>pycoingecko/asyncapi.py\<close> is embedded function by function. Python
  \<^verbatim>\<open>bytes\<close> are lists of 8-bit words. A decoded Python \<^verbatim>\<open>str\<close> is a list of Unicode code
  points, since a response body may hold any character. URLs, keyword names and the
  string arguments of the endpoint methods are written as HOL strings.
\<close>

type_synonym byte = "8 word"
type_synonym unicode = "nat list"

definition ustr :: "string \<Rightarrow> unicode" where
  "ustr s = map of_char s"

definition ascii :: "string \<Rightarrow> byte list" where
  "ascii s = map of_char s"

text \<open>The structured data \<^verbatim>\<open>json.loads\<close> returns.\<close>

datatype json =
    JNull
  | JBool bool
  | JNumber int
  | JString unicode
  | JArray "json list"
  | JObject "(unicode \<times> json) list"

text \<open>
  The exceptions that occur. All of them are subclasses of \<^verbatim>\<open>Exception\<close>, so the
  handler \<^verbatim>\<open>except Exception as e\<close> of \<^verbatim>\<open>__request\<close> catches each of them.
  \<^verbatim>\<open>ClientResponseError\<close> carries the HTTP status, \<^verbatim>\<open>JSONDecodeError\<close> the document that
  failed to parse, \<^verbatim>\<open>ValueError\<close> the payload \<^verbatim>\<open>__request\<close> raises it with.
\<close>

datatype exn =
    ClientConnectionError
  | TimeoutError
  | ClientResponseError nat
  | UnicodeDecodeError
  | UnicodeEncodeError
  | JSONDecodeError unicode
  | ValueError json
  | UnboundLocalError
  | NameError
  | TypeError
  | KeyError
  | AttributeError

text \<open>
  The values a query parameter can take, and Python's \<^verbatim>\<open>str()\<close> of them, which
  \<^verbatim>\<open>"{0}={1}&".format(key, value)\<close> applies.
\<close>

datatype pyval = PStr string | PInt int | PBool bool

function digits :: "nat \<Rightarrow> string" where
  "digits n =
     (if n < 10 then [''0123456789'' ! n]
      else digits (n div 10) @ [''0123456789'' ! (n mod 10)])"
  by pat_completeness auto
termination
  by (relation "measure id") auto

fun py_str :: "pyval \<Rightarrow> string" where
  "py_str (PStr s) = s"
| "py_str (PInt i) = (if i < 0 then CHR ''-'' # digits (nat (- i)) else digits (nat i))"
| "py_str (PBool b) = (if b then ''True'' else ''False'')"

section \<open>Query construction\<close>

text \<open>
  \<^verbatim>\<open>__api_url_params\<close> (lines 53 to 59). A \<^verbatim>\<open>dict\<close> iterates in insertion order, so
  \<^verbatim>\<open>params\<close> is an association list; \<^verbatim>\<open>api_url[:-1]\<close> drops the last character.
\<close>

definition format_param :: "string \<Rightarrow> pyval \<Rightarrow> string" where
  "format_param key v = key @ ''='' @ py_str v @ ''&''"

definition api_url_params :: "string \<Rightarrow> (string \<times> pyval) list \<Rightarrow> string" where
  "api_url_params api_url params =
     (if params \<noteq> [] then
        butlast (foldl (\<lambda>u (key, v). u @ format_param key v) (api_url @ ''?'') params)
      else api_url)"

text \<open>
  The query string as the specification words it: the pairs \<^verbatim>\<open>key=value\<close>, joined by
  \<^verbatim>\<open>&\<close>. \<open>str_join\<close> is Python's \<^verbatim>\<open>sep.join(xs)\<close>.
\<close>

fun str_join :: "string \<Rightarrow> string list \<Rightarrow> string" where
  "str_join sep [] = []"
| "str_join sep [x] = x"
| "str_join sep (x # y # ys) = x @ sep @ str_join sep (y # ys)"

definition query_pairs :: "(string \<times> pyval) list \<Rightarrow> string" where
  "query_pairs params = str_join ''&'' (map (\<lambda>(key, v). key @ ''='' @ py_str v) params)"

text \<open>\<^verbatim>\<open>kwargs[key] = value\<close>: an existing key keeps its place, a new key goes last.\<close>

fun dict_set :: "(string \<times> 'v) list \<Rightarrow> string \<Rightarrow> 'v \<Rightarrow> (string \<times> 'v) list" where
  "dict_set [] k v = [(k, v)]"
| "dict_set ((k', v') # kvs) k v =
     (if k' = k then (k, v) # kvs else (k', v') # dict_set kvs k v)"

section \<open>The UTF-8 codec of the standard library\<close>

text \<open>
  \<^verbatim>\<open>codecs.getincrementaldecoder('utf-8')(errors='strict')\<close> is Python's standard library,
  not code of the module. It is modelled as the library documents it:
  \<^verbatim>\<open>decode(input)\<close> decodes \<^verbatim>\<open>self.buffer + input\<close>, returns the characters of every
  complete sequence, keeps an incomplete trailing sequence in \<^verbatim>\<open>self.buffer\<close>, and
  raises \<^verbatim>\<open>UnicodeDecodeError\<close> on a byte that cannot start or continue a sequence
  (overlong forms, surrogates and code points beyond U+10FFFF included). One sequence
  is judged late: the first two bytes of an encoded surrogate, \<^verbatim>\<open>ED\<close> and a byte of
  \<^verbatim>\<open>A0\<close> to \<^verbatim>\<open>BF\<close>, are kept in the buffer when the data ends with them, and are
  rejected once a further byte has arrived.
\<close>

definition is_continuation :: "byte \<Rightarrow> bool" where
  "is_continuation b = (0x80 \<le> unat b \<and> unat b \<le> 0xBF)"

datatype step = Complete nat "byte list" | Incomplete | Malformed

fun decode_tail :: "nat \<Rightarrow> nat \<Rightarrow> byte list \<Rightarrow> step" where
  "decode_tail acc 0 bs = Complete acc bs"
| "decode_tail acc (Suc n) [] = Incomplete"
| "decode_tail acc (Suc n) (b # bs) =
     (if is_continuation b then decode_tail (acc * 64 + (unat b - 0x80)) n bs else Malformed)"

text \<open>The range of the second byte, which depends on the lead byte.\<close>

definition second_range :: "nat \<Rightarrow> nat \<times> nat" where
  "second_range lead =
     (if lead = 0xE0 then (0xA0, 0xBF)
      else if lead = 0xED then (0x80, 0x9F)
      else if lead = 0xF0 then (0x90, 0xBF)
      else if lead = 0xF4 then (0x80, 0x8F)
      else (0x80, 0xBF))"

definition decode_char :: "byte \<Rightarrow> byte list \<Rightarrow> step" where
  "decode_char b0 bs =
     (let x = unat b0 in
      if x < 0x80 then Complete x bs
      else if x < 0xC2 then Malformed
      else if x < 0xE0 then decode_tail (x - 0xC0) 1 bs
      else if x < 0xF5 then
        (case bs of
           [] \<Rightarrow> Incomplete
         | b1 # bs' \<Rightarrow>
             let y = unat b1 in
             if fst (second_range x) \<le> y \<and> y \<le> snd (second_range x) then
               (if x < 0xF0 then decode_tail ((x - 0xE0) * 64 + (y - 0x80)) 1 bs'
                else decode_tail ((x - 0xF0) * 64 + (y - 0x80)) 2 bs')
             else if x = 0xED \<and> bs' = [] \<and> 0xA0 \<le> y \<and> y \<le> 0xBF then Incomplete
             else Malformed)
      else Malformed)"

lemma decode_tail_length:
  "decode_tail acc n bs = Complete c r \<Longrightarrow> length r \<le> length bs"
  by (induction acc n bs rule: decode_tail.induct) (auto split: if_splits)

lemma decode_char_length:
  "decode_char b bs = Complete c r \<Longrightarrow> length r \<le> length bs"
  by (auto simp: decode_char_def Let_def split: if_splits list.splits dest!: decode_tail_length)

text \<open>
  \<^verbatim>\<open>codecs.utf_8_decode(data, 'strict', final=False)\<close>: the decoded characters and the
  bytes left over, \<^verbatim>\<open>data[consumed:]\<close>.
\<close>

function utf_8_decode :: "byte list \<Rightarrow> exn + unicode \<times> byte list" where
  "utf_8_decode [] = Inr ([], [])"
| "utf_8_decode (b # bs) =
     (case decode_char b bs of
        Malformed \<Rightarrow> Inl UnicodeDecodeError
      | Incomplete \<Rightarrow> Inr ([], b # bs)
      | Complete c rest \<Rightarrow>
          (case utf_8_decode rest of
             Inl e \<Rightarrow> Inl e
           | Inr (cs, buf) \<Rightarrow> Inr (c # cs, buf)))"
  by pat_completeness auto
termination
  by (relation "measure length") (auto dest: decode_char_length)

text \<open>
  \<^verbatim>\<open>bytes.decode('utf-8')\<close>, the decoding of a whole byte string: bytes left over at
  the end are an error.
\<close>

definition bytes_decode :: "byte list \<Rightarrow> exn + unicode" where
  "bytes_decode bs =
     (case utf_8_decode bs of
        Inl e \<Rightarrow> Inl e
      | Inr (data, buf) \<Rightarrow> if buf = [] then Inr data else Inl UnicodeDecodeError)"

text \<open>
  \<^verbatim>\<open>str.encode('utf-8')\<close>, by which the claims about decoding speak of "the UTF-8
  encoding of a string". A surrogate has no encoding.
\<close>

definition is_scalar :: "nat \<Rightarrow> bool" where
  "is_scalar c = (c < 0xD800 \<or> (0xE000 \<le> c \<and> c < 0x110000))"

definition encode_char :: "nat \<Rightarrow> byte list" where
  "encode_char c =
     (if c < 0x80 then [of_nat c]
      else if c < 0x800 then [of_nat (0xC0 + c div 64), of_nat (0x80 + c mod 64)]
      else if c < 0x10000 then
        [of_nat (0xE0 + c div 4096), of_nat (0x80 + c div 64 mod 64), of_nat (0x80 + c mod 64)]
      else
        [of_nat (0xF0 + c div 262144), of_nat (0x80 + c div 4096 mod 64),
         of_nat (0x80 + c div 64 mod 64), of_nat (0x80 + c mod 64)])"

fun utf_8_encode :: "unicode \<Rightarrow> exn + byte list" where
  "utf_8_encode [] = Inr []"
| "utf_8_encode (c # cs) =
     (if is_scalar c then
        (case utf_8_encode cs of Inl e \<Rightarrow> Inl e | Inr bs \<Rightarrow> Inr (encode_char c @ bs))
      else Inl UnicodeEncodeError)"

section \<open>DecodingStreamReader\<close>

text \<open>
  The wrapped stream is whatever object the caller passes (in \<^verbatim>\<open>__request\<close>, aiohttp's
  \<^verbatim>\<open>response.content\<close>). It is represented by the values its coming \<^verbatim>\<open>read\<close> calls
  return, in order: each is \<^verbatim>\<open>bytes\<close> or, already decoded, \<^verbatim>\<open>str\<close>. Once they are used up
  the stream is at end of file and \<^verbatim>\<open>read\<close> returns \<^verbatim>\<open>b''\<close>. The argument \<^verbatim>\<open>n\<close> is handed
  to the stream; \<^verbatim>\<open>read()\<close> of an aiohttp stream, with \<^verbatim>\<open>n = -1\<close>, returns the whole
  remaining body, so a response whose body is \<open>b\<close> has the stream \<open>[Bytes b]\<close>.

  A read can also raise. \<open>Failure e\<close> at the head of the stream is an exception set on
  the stream (aiohttp's \<^verbatim>\<open>set_exception\<close>): \<^verbatim>\<open>read\<close> raises it at once, whatever data
  is buffered behind it, and the exception stays set. \<open>stream_exception\<close> is
  \<^verbatim>\<open>stream.exception()\<close>.
\<close>

datatype chunk = Bytes "byte list" | Text unicode | Failure exn

type_synonym stream = "chunk list"

definition stream_read :: "stream \<Rightarrow> int \<Rightarrow> chunk \<times> stream" where
  "stream_read s n =
     (case s of
        [] \<Rightarrow> (Bytes [], [])
      | Failure e # cs \<Rightarrow> (Failure e, Failure e # cs)
      | c # cs \<Rightarrow> (c, cs))"

definition stream_exception :: "stream \<Rightarrow> exn option" where
  "stream_exception s = (case s of Failure e # cs \<Rightarrow> Some e | _ \<Rightarrow> None)"

definition stream_at_eof :: "stream \<Rightarrow> bool" where
  "stream_at_eof s = (s = [])"

text \<open>
  The class (lines 8 to 26), with the constructor's defaults \<^verbatim>\<open>encoding='utf-8'\<close> and
  \<^verbatim>\<open>errors='strict'\<close>. The state of \<^verbatim>\<open>self.decoder\<close> is its buffer of undecoded bytes.
  A \<^verbatim>\<open>read\<close> that raises leaves the decoder as it was.
\<close>

record DecodingStreamReader =
  stream :: stream
  decoder :: "byte list"

definition DecodingStreamReader_init :: "stream \<Rightarrow> DecodingStreamReader" where
  "DecodingStreamReader_init s = \<lparr>stream = s, decoder = []\<rparr>"

definition read :: "DecodingStreamReader \<Rightarrow> int \<Rightarrow> (exn + unicode) \<times> DecodingStreamReader" where
  "read self n =
     (case stream_read (stream self) n of
        (Bytes bs, s') \<Rightarrow>
          (case utf_8_decode (decoder self @ bs) of
             Inl e \<Rightarrow> (Inl e, self\<lparr>stream := s'\<rparr>)
           | Inr (data, buf) \<Rightarrow> (Inr data, self\<lparr>stream := s', decoder := buf\<rparr>))
      | (Text data, s') \<Rightarrow> (Inr data, self\<lparr>stream := s'\<rparr>)
      | (Failure e, s') \<Rightarrow> (Inl e, self\<lparr>stream := s'\<rparr>))"

definition at_eof :: "DecodingStreamReader \<Rightarrow> bool" where
  "at_eof self = stream_at_eof (stream self)"

section \<open>The HTTP layer\<close>

text \<open>
  aiohttp and aiohttp_retry are libraries. One HTTP attempt either raises (a connection
  failure, a timeout) or yields a response: a status and the stream of its body.
\<close>

record response =
  status :: nat
  content :: stream

datatype attempt = Raises exn | Responds response

text \<open>
  aiohttp's \<^verbatim>\<open>ClientResponse.release()\<close>: the connection is given back, and unless an
  exception is already set on \<^verbatim>\<open>response.content\<close>,
  \<^verbatim>\<open>ClientConnectionError('Connection closed')\<close> is set on it, so that the body can no
  longer be read.
\<close>

definition release :: "response \<Rightarrow> response" where
  "release r =
     (case stream_exception (content r) of
        None \<Rightarrow> r\<lparr>content := Failure ClientConnectionError # content r\<rparr>
      | Some e \<Rightarrow> r)"

text \<open>
  aiohttp's \<^verbatim>\<open>raise_for_status()\<close> on a response that was awaited, as on line 39, and not
  entered as a context manager: for a status of 400 or more it releases the response
  and then raises \<^verbatim>\<open>ClientResponseError\<close>. The response is returned as the call
  leaves it.
\<close>

definition raise_for_status :: "response \<Rightarrow> (exn + unit) \<times> response" where
  "raise_for_status r =
     (if 400 \<le> status r then (Inl (ClientResponseError (status r)), release r)
      else (Inr (), r))"

text \<open>\<^verbatim>\<open>ExponentialRetry(attempts=5, statuses=[502, 503, 504])\<close> (line 34).\<close>

record ExponentialRetry =
  attempts :: nat
  statuses :: "nat list"

text \<open>
  Modelled from the spec: the retry loop of aiohttp_retry's \<^verbatim>\<open>RetryClient.get\<close>, which is
  not part of the module. The specification gives its contract: the GET "retries only
  when the response status is in the configured retryable set, up to a configured
  attempt count", and "non-retryable failures (e.g., 4xx client errors, network-level
  connection errors) propagate immediately without retry". The response of the last
  attempt allowed is returned whatever its status. \<open>srv k\<close> is what the server does at
  the \<open>k\<close>-th attempt; the result carries the number of attempts made. The
  specification requires at least one attempt; \<open>attempts = 0\<close> is read as one.
\<close>

fun retry_get :: "nat list \<Rightarrow> (nat \<Rightarrow> attempt) \<Rightarrow> nat \<Rightarrow> nat \<Rightarrow> (exn + response) \<times> nat" where
  "retry_get sts srv k 0 =
     (case srv k of Raises e \<Rightarrow> (Inl e, k) | Responds r \<Rightarrow> (Inr r, k))"
| "retry_get sts srv k (Suc left) =
     (case srv k of
        Raises e \<Rightarrow> (Inl e, k)
      | Responds r \<Rightarrow>
          if status r \<in> set sts then retry_get sts srv (Suc k) left else (Inr r, k))"

definition session_get :: "ExponentialRetry \<Rightarrow> (nat \<Rightarrow> attempt) \<Rightarrow> (exn + response) \<times> nat" where
  "session_get retry_options srv = retry_get (statuses retry_options) srv 1 (attempts retry_options - 1)"

section \<open>The client and its request executor\<close>

record CoinGeckoAPI =
  api_base_url :: string
  request_timeout :: nat
  retry_options :: ExponentialRetry

definition API_URL_BASE :: string where
  "API_URL_BASE = ''https://api.coingecko.com/api/v3/''"

definition CoinGeckoAPI_init :: "string \<Rightarrow> CoinGeckoAPI" where
  "CoinGeckoAPI_init base =
     \<lparr>api_base_url = base, request_timeout = 120,
      retry_options = \<lparr>attempts = 5, statuses = [502, 503, 504]\<rparr>\<rparr>"

text \<open>
  What lies outside the client: the server, as the outcome of each attempt on each URL,
  and \<^verbatim>\<open>json.loads\<close>, as the partial function from documents to structured data
  (\<open>None\<close> where it raises \<^verbatim>\<open>JSONDecodeError\<close>).
\<close>

record environment =
  server :: "string \<Rightarrow> nat \<Rightarrow> attempt"
  loads :: "unicode \<Rightarrow> json option"

definition json_loads :: "environment \<Rightarrow> unicode \<Rightarrow> exn + json" where
  "json_loads env s = (case loads env s of None \<Rightarrow> Inl (JSONDecodeError s) | Some j \<Rightarrow> Inr j)"

text \<open>
  What the claims mean by a body that is valid JSON: it is UTF-8 as a whole, and
  \<^verbatim>\<open>json.loads\<close> accepts its text.
\<close>

definition valid_json :: "environment \<Rightarrow> byte list \<Rightarrow> bool" where
  "valid_json env body =
     (case bytes_decode body of Inl e \<Rightarrow> False | Inr doc \<Rightarrow> loads env doc \<noteq> None)"

text \<open>
  Lines 41 and 42, and again 46 and 47: a fresh \<^verbatim>\<open>DecodingStreamReader\<close> on
  \<^verbatim>\<open>response.content\<close>, one \<^verbatim>\<open>read()\<close>, then \<^verbatim>\<open>json.loads\<close>. The stream is shared, so
  its state after the read is returned too.
\<close>

definition read_json :: "environment \<Rightarrow> stream \<Rightarrow> (exn + json) \<times> stream" where
  "read_json env s =
     (case read (DecodingStreamReader_init s) (- 1) of
        (Inl e, rd) \<Rightarrow> (Inl e, stream rd)
      | (Inr content_stream, rd) \<Rightarrow> (json_loads env content_stream, stream rd))"

text \<open>
  The handler (lines 44 to 51), entered with the exception \<open>e\<close> being handled and
  \<^verbatim>\<open>response.content\<close> if \<^verbatim>\<open>response\<close> was assigned. Reading the unbound local raises
  \<^verbatim>\<open>UnboundLocalError\<close>. Only \<^verbatim>\<open>JSONDecodeError\<close> is caught by the inner \<^verbatim>\<open>except\<close>; the
  bare \<^verbatim>\<open>raise\<close> after it raises \<open>e\<close> again. Any other exception of the secondary
  read, a \<^verbatim>\<open>UnicodeDecodeError\<close> or one set on the stream, leaves the handler as it is.
\<close>

definition handler :: "environment \<Rightarrow> exn \<Rightarrow> stream option \<Rightarrow> exn" where
  "handler env e resp =
     (case resp of
        None \<Rightarrow> UnboundLocalError
      | Some s \<Rightarrow>
          (case fst (read_json env s) of
             Inr body \<Rightarrow> ValueError body
           | Inl (JSONDecodeError doc) \<Rightarrow> e
           | Inl e' \<Rightarrow> e'))"

text \<open>
  \<^verbatim>\<open>__request\<close> (lines 36 to 51). The result is what the coroutine returns or raises,
  with the number of HTTP attempts it made.
\<close>

type_synonym outcome = "(exn + json) \<times> nat"

definition request :: "CoinGeckoAPI \<Rightarrow> environment \<Rightarrow> string \<Rightarrow> outcome" where
  "request self env url =
     (case session_get (retry_options self) (server env url) of
        (Inl e, n) \<Rightarrow> (Inl (handler env e None), n)
      | (Inr response, n) \<Rightarrow>
          (case raise_for_status response of
             (Inl e, response) \<Rightarrow> (Inl (handler env e (Some (content response))), n)
           | (Inr _, response) \<Rightarrow>
               (case read_json env (content response) of
                  (Inr body, s') \<Rightarrow> (Inr body, n)
                | (Inl e, s') \<Rightarrow> (Inl (handler env e (Some s')), n))))"

section \<open>Endpoint methods\<close>

text \<open>
  Calling a coroutine function such as \<^verbatim>\<open>self.__request(api_url)\<close> runs nothing: it
  yields a coroutine object, which \<^verbatim>\<open>await\<close> then runs. \<open>Coroutine r\<close> is the
  coroutine object whose run has the outcome \<open>r\<close>. Subscripting (\<^verbatim>\<open>obj[key]\<close>) is defined
  on a \<^verbatim>\<open>dict\<close> with a string key; a coroutine object is not subscriptable, and a
  value that is no awaitable cannot be awaited: both raise \<^verbatim>\<open>TypeError\<close>.
\<close>

datatype pyobj = Coroutine outcome | Data json

fun getitem :: "pyobj \<Rightarrow> unicode \<Rightarrow> exn + pyobj" where
  "getitem (Coroutine r) key = Inl TypeError"
| "getitem (Data (JObject kvs)) key =
     (case map_of kvs key of None \<Rightarrow> Inl KeyError | Some v \<Rightarrow> Inr (Data v))"
| "getitem (Data j) key = Inl TypeError"

fun await :: "pyobj \<Rightarrow> outcome" where
  "await (Coroutine r) = r"
| "await (Data j) = (Inl TypeError, 0)"

text \<open>
  A name that is neither a local, nor bound in the module (its imports and its two
  classes), nor a builtin, raises \<^verbatim>\<open>NameError\<close> when it is read.
\<close>

definition module_globals :: "string list" where
  "module_globals =
     [''json'', ''codecs'', ''asyncio'', ''aiohttp'', ''RetryClient'', ''ExponentialRetry'',
      ''list_args_to_comma_separated'', ''DecodingStreamReader'', ''CoinGeckoAPI'']"

definition load_global :: "string \<Rightarrow> exn + unit" where
  "load_global name = (if name \<in> set module_globals then Inr () else Inl NameError)"

text \<open>
  Modelled from the spec: the decorator \<^verbatim>\<open>list_args_to_comma_separated\<close> of
  \<^verbatim>\<open>pycoingecko/utils.py\<close>, a file that is not at hand. The specification describes it
  as "converting list-valued arguments into comma-separated strings": an argument that
  is a list of strings becomes their \<^verbatim>\<open>','.join\<close>, any other argument is passed on as
  it is.
\<close>

datatype arg = Plain pyval | ListArg "string list"

definition list_arg_to_comma_separated :: "arg \<Rightarrow> pyval" where
  "list_arg_to_comma_separated a =
     (case a of Plain v \<Rightarrow> v | ListArg xs \<Rightarrow> PStr (str_join '','' xs))"

text \<open>\<^verbatim>\<open>v.replace(' ', '')\<close>, a method of \<^verbatim>\<open>str\<close> only.\<close>

definition replace_space :: "pyval \<Rightarrow> exn + string" where
  "replace_space v =
     (case v of PStr s \<Rightarrow> Inr (filter (\<lambda>c. c \<noteq> CHR '' '') s) | _ \<Rightarrow> Inl AttributeError)"

text \<open>\<^verbatim>\<open>ping\<close> (lines 62 to 66).\<close>

definition ping :: "CoinGeckoAPI \<Rightarrow> environment \<Rightarrow> outcome" where
  "ping self env =
     (let api_url = api_base_url self @ ''ping''
      in await (Coroutine (request self env api_url)))"

text \<open>\<^verbatim>\<open>get_price\<close> (lines 69 to 81), under its decorator.\<close>

definition get_price ::
  "CoinGeckoAPI \<Rightarrow> environment \<Rightarrow> arg \<Rightarrow> arg \<Rightarrow> (string \<times> arg) list \<Rightarrow> outcome" where
  "get_price self env ids vs_currencies kwargs =
     (let ids = list_arg_to_comma_separated ids;
          vs_currencies = list_arg_to_comma_separated vs_currencies;
          kwargs = map (\<lambda>(k, v). (k, list_arg_to_comma_separated v)) kwargs
      in case replace_space ids of
           Inl e \<Rightarrow> (Inl e, 0)
         | Inr ids \<Rightarrow>
             (let kwargs = dict_set kwargs ''ids'' (PStr ids)
              in case replace_space vs_currencies of
                   Inl e \<Rightarrow> (Inl e, 0)
                 | Inr vs_currencies \<Rightarrow>
                     (let kwargs = dict_set kwargs ''vs_currencies'' (PStr vs_currencies);
                          api_url = api_base_url self @ ''simple/price'';
                          api_url = api_url_params api_url kwargs
                      in await (Coroutine (request self env api_url)))))"

text \<open>\<^verbatim>\<open>get_supported_vs_currencies\<close> (lines 97 to 103).\<close>

definition get_supported_vs_currencies ::
  "CoinGeckoAPI \<Rightarrow> environment \<Rightarrow> (string \<times> pyval) list \<Rightarrow> outcome" where
  "get_supported_vs_currencies self env kwargs =
     (let api_url = api_base_url self @ ''simple/supported_vs_currencies'';
          api_url = api_url_params api_url kwargs
      in await (Coroutine (request self env api_url)))"

text \<open>
  \<^verbatim>\<open>get_coins_list\<close> (lines 116 to 122). Its last line reads the name \<^verbatim>\<open>elf\<close>, not
  \<^verbatim>\<open>self\<close>, before anything is called.
\<close>

definition get_coins_list ::
  "CoinGeckoAPI \<Rightarrow> environment \<Rightarrow> (string \<times> pyval) list \<Rightarrow> outcome" where
  "get_coins_list self env kwargs =
     (let api_url = api_base_url self @ ''coins/list'';
          api_url = api_url_params api_url kwargs
      in case load_global ''elf'' of
           Inl e \<Rightarrow> (Inl e, 0)
         | Inr elf \<Rightarrow> await (Coroutine (request self env api_url)))"

text \<open>
  \<^verbatim>\<open>get_global\<close> (lines 419 to 425) and \<^verbatim>\<open>get_global_decentralized_finance_defi\<close> (lines
  427 to 433). In \<^verbatim>\<open>await self.__request(api_url)['data']\<close> the subscript binds tighter
  than \<^verbatim>\<open>await\<close>: the coroutine object is subscripted, and the result would be awaited.
\<close>

definition get_global ::
  "CoinGeckoAPI \<Rightarrow> environment \<Rightarrow> (string \<times> pyval) list \<Rightarrow> outcome" where
  "get_global self env kwargs =
     (let api_url = api_base_url self @ ''global'';
          api_url = api_url_params api_url kwargs
      in case getitem (Coroutine (request self env api_url)) (ustr ''data'') of
           Inl e \<Rightarrow> (Inl e, 0)
         | Inr v \<Rightarrow> await v)"

definition get_global_decentralized_finance_defi ::
  "CoinGeckoAPI \<Rightarrow> environment \<Rightarrow> (string \<times> pyval) list \<Rightarrow> outcome" where
  "get_global_decentralized_finance_defi self env kwargs =
     (let api_url = api_base_url self @ ''global/decentralized_finance_defi'';
          api_url = api_url_params api_url kwargs
      in case getitem (Coroutine (request self env api_url)) (ustr ''data'') of
           Inl e \<Rightarrow> (Inl e, 0)
         | Inr v \<Rightarrow> await v)"

section \<open>A mock server\<close>

text \<open>
  The concrete inputs of the examples below: a server that answers every attempt with
  the same status and body, a server that refuses every connection, and \<^verbatim>\<open>json.loads\<close>
  on the documents the examples use. \<open>mock_loads\<close> rejects every other document, among
  them \<^verbatim>\<open>oops\<close> and the empty document, which \<^verbatim>\<open>json.loads\<close> rejects as well.
\<close>

definition mock_server :: "nat \<Rightarrow> byte list \<Rightarrow> string \<Rightarrow> nat \<Rightarrow> attempt" where
  "mock_server st body url k = Responds \<lparr>status = st, content = [Bytes body]\<rparr>"

definition refusing_server :: "string \<Rightarrow> nat \<Rightarrow> attempt" where
  "refusing_server url k = Raises ClientConnectionError"

definition not_found :: json where
  "not_found = JObject [(ustr ''error'', JString (ustr ''not found''))]"

definition active_100 :: json where
  "active_100 = JObject [(ustr ''active_cryptocurrencies'', JNumber 100)]"

definition mock_loads :: "unicode \<Rightarrow> json option" where
  "mock_loads =
     map_of
       [(ustr ''{\"error\": \"not found\"}'', not_found),
        (ustr ''{\"data\": {\"active_cryptocurrencies\": 100}}'',
         JObject [(ustr ''data'', active_100)]),
        (ustr ''[]'', JArray [])]"

definition mock_bytes :: "nat \<Rightarrow> byte list \<Rightarrow> environment" where
  "mock_bytes st body = \<lparr>server = mock_server st body, loads = mock_loads\<rparr>"

definition mock :: "nat \<Rightarrow> string \<Rightarrow> environment" where
  "mock st body = mock_bytes st (ascii body)"

definition refusing :: environment where
  "refusing = \<lparr>server = refusing_server, loads = mock_loads\<rparr>"

definition client :: CoinGeckoAPI where
  "client = CoinGeckoAPI_init API_URL_BASE"

section \<open>Query construction: proofs\<close>

lemma foldl_format_param:
  "foldl (\<lambda>u (key, v). u @ format_param key v) acc ps =
     acc @ concat (map (\<lambda>(key, v). format_param key v) ps)"
  by (induction ps arbitrary: acc) auto

lemma butlast_concat_format_param:
  "ps \<noteq> [] \<Longrightarrow>
     butlast (concat (map (\<lambda>(key, v). format_param key v) ps)) = query_pairs ps"
proof (induction ps rule: induct_list012)
  case 1
  then show ?case by simp
next
  case (2 p)
  then show ?case
    by (cases p) (simp add: format_param_def query_pairs_def butlast_append)
next
  case (3 p q ps)
  then show ?case
    by (cases p; cases q) (simp add: format_param_def query_pairs_def butlast_append)
qed

text \<open>
  C8. For every URL and every parameter mapping, \<^verbatim>\<open>__api_url_params\<close> returns the URL
  unchanged when the mapping is empty, and otherwise the URL, a question mark and the
  pairs \<^verbatim>\<open>key=value\<close> in the mapping's order, joined by \<^verbatim>\<open>&\<close>: keys and values stand
  as they are (nothing is escaped) and no separator follows the last pair.
\<close>

theorem api_url_params_query:
  "api_url_params api_url params =
     (if params = [] then api_url else api_url @ ''?'' @ query_pairs params)"
proof (cases "params = []")
  case True
  then show ?thesis by (simp add: api_url_params_def)
next
  case False
  then have ne: "concat (map (\<lambda>(key, v). format_param key v) params) \<noteq> []"
    by (cases params) (auto simp: format_param_def)
  show ?thesis
    using False ne butlast_concat_format_param [OF False]
    by (simp add: api_url_params_def foldl_format_param butlast_append)
qed

section \<open>The UTF-8 codec: proofs\<close>

lemma decode_tail_append_Complete:
  "decode_tail acc n bs = Complete c r \<Longrightarrow> decode_tail acc n (bs @ ys) = Complete c (r @ ys)"
  by (induction acc n bs rule: decode_tail.induct) (auto split: if_splits)

lemma decode_tail_append_Malformed:
  "decode_tail acc n bs = Malformed \<Longrightarrow> decode_tail acc n (bs @ ys) = Malformed"
  by (induction acc n bs rule: decode_tail.induct) (auto split: if_splits)

lemma decode_char_append_Complete:
  "decode_char b bs = Complete c r \<Longrightarrow> decode_char b (bs @ ys) = Complete c (r @ ys)"
  by (auto simp: decode_char_def Let_def decode_tail_append_Complete split: if_splits list.splits)

lemma decode_char_append_Malformed:
  "decode_char b bs = Malformed \<Longrightarrow> decode_char b (bs @ ys) = Malformed"
  by (auto simp: decode_char_def Let_def decode_tail_append_Malformed split: if_splits list.splits)

lemma utf_8_decode_append_error:
  "utf_8_decode xs = Inl e \<Longrightarrow> utf_8_decode (xs @ ys) = Inl e"
proof (induction xs rule: utf_8_decode.induct)
  case 1
  then show ?case by simp
next
  case (2 b bs)
  show ?case
  proof (cases "decode_char b bs")
    case (Complete c rest)
    with 2 show ?thesis
      by (auto simp: decode_char_append_Complete split: sum.splits prod.splits)
  next
    case Incomplete
    with 2 show ?thesis by simp
  next
    case Malformed
    with 2 show ?thesis by (simp add: decode_char_append_Malformed)
  qed
qed

lemma utf_8_decode_append:
  "utf_8_decode xs = Inr (t, buf) \<Longrightarrow>
     utf_8_decode (xs @ ys) =
       (case utf_8_decode (buf @ ys) of Inl e \<Rightarrow> Inl e | Inr (t', buf') \<Rightarrow> Inr (t @ t', buf'))"
proof (induction xs arbitrary: t rule: utf_8_decode.induct)
  case 1
  then show ?case by (auto split: sum.splits)
next
  case (2 b bs)
  show ?case
  proof (cases "decode_char b bs")
    case (Complete c rest)
    then obtain cs where cs: "utf_8_decode rest = Inr (cs, buf)" "t = c # cs"
      using "2.prems" by (auto split: sum.splits prod.splits)
    have "utf_8_decode (rest @ ys) =
       (case utf_8_decode (buf @ ys) of Inl e \<Rightarrow> Inl e | Inr (t', buf') \<Rightarrow> Inr (cs @ t', buf'))"
      using "2.IH" [OF Complete cs(1)] .
    then show ?thesis
      using decode_char_append_Complete [OF Complete, of ys] cs(2)
      by (auto split: sum.splits prod.splits)
  next
    case Incomplete
    then have "t = []" "buf = b # bs" using "2.prems" by auto
    then show ?thesis by (auto split: sum.splits)
  next
    case Malformed
    then show ?thesis using "2.prems" by simp
  qed
qed

lemma u8: "n < 256 \<Longrightarrow> unat (of_nat n :: byte) = n"
  by (simp add: unat_of_nat)

lemma decode_char_1: "unat b0 < 0x80 \<Longrightarrow> decode_char b0 rest = Complete (unat b0) rest"
  by (simp add: decode_char_def)

lemma decode_char_2:
  assumes "unat b0 = 0xC0 + a" "2 \<le> a" "a < 32" "unat b1 = 0x80 + b" "b < 64"
  shows "decode_char b0 (b1 # rest) = Complete (64 * a + b) rest"
  using assms by (simp add: decode_char_def is_continuation_def)

lemma decode_char_3:
  assumes "unat b0 = 0xE0 + a" "a < 16" "unat b1 = 0x80 + b" "b < 64" "unat b2 = 0x80 + d" "d < 64"
    and "a = 0 \<longrightarrow> 32 \<le> b" "a = 13 \<longrightarrow> b < 32"
  shows "decode_char b0 (b1 # b2 # rest) = Complete (4096 * a + 64 * b + d) rest"
proof -
  have r: "fst (second_range (0xE0 + a)) \<le> 0x80 + b \<and> 0x80 + b \<le> snd (second_range (0xE0 + a))"
    using assms by (auto simp: second_range_def)
  show ?thesis
    using assms(1-6) r by (simp add: decode_char_def is_continuation_def)
qed

lemma decode_char_4:
  assumes "unat b0 = 0xF0 + a" "a < 5" "unat b1 = 0x80 + b" "b < 64" "unat b2 = 0x80 + d" "d < 64"
    "unat b3 = 0x80 + e" "e < 64"
    and "a = 0 \<longrightarrow> 16 \<le> b" "a = 4 \<longrightarrow> b < 16"
  shows "decode_char b0 (b1 # b2 # b3 # rest) = Complete (262144 * a + 4096 * b + 64 * d + e) rest"
proof -
  have r: "fst (second_range (0xF0 + a)) \<le> 0x80 + b \<and> 0x80 + b \<le> snd (second_range (0xF0 + a))"
    using assms by (auto simp: second_range_def)
  have n: "decode_tail acc 2 bs = decode_tail acc (Suc (Suc 0)) bs" for acc bs
    by (simp add: numeral_2_eq_2)
  show ?thesis
    using assms(1-8) r by (simp add: decode_char_def is_continuation_def n)
qed

lemma radix3: "(c::nat) = 4096 * (c div 4096) + 64 * (c div 64 mod 64) + c mod 64"
proof -
  have q: "c div 4096 = c div 64 div 64" by (simp add: div_mult2_eq)
  have 1: "c = 64 * (c div 64) + c mod 64" by simp
  have 2: "c div 64 = 64 * (c div 64 div 64) + c div 64 mod 64" by simp
  show ?thesis unfolding q using 1 2 by linarith
qed

lemma radix4:
  "(c::nat) = 262144 * (c div 262144) + 4096 * (c div 4096 mod 64) + 64 * (c div 64 mod 64) + c mod 64"
proof -
  have q: "c div 4096 = c div 64 div 64" "c div 262144 = c div 64 div 64 div 64"
    by (simp_all add: div_mult2_eq)
  have 1: "c = 64 * (c div 64) + c mod 64" by simp
  have 2: "c div 64 = 64 * (c div 64 div 64) + c div 64 mod 64" by simp
  have 3: "c div 64 div 64 = 64 * (c div 64 div 64 div 64) + c div 64 div 64 mod 64" by simp
  show ?thesis unfolding q using 1 2 3 by linarith
qed

lemma decode_encode_char:
  assumes "is_scalar c"
  shows "\<exists>b bs. encode_char c = b # bs \<and> decode_char b (bs @ rest) = Complete c rest"
proof -
  consider "c < 0x80" | "0x80 \<le> c" "c < 0x800" | "0x800 \<le> c" "c < 0x10000"
    | "0x10000 \<le> c" "c < 0x110000"
    using assms unfolding is_scalar_def by atomize_elim linarith
  then show ?thesis
  proof cases
    case 1
    then show ?thesis
      using decode_char_1 [of "of_nat c" rest] by (simp add: encode_char_def u8)
  next
    case 2
    define a b where "a = c div 64" and "b = c mod 64"
    have c: "c = 64 * a + b" and b: "b < 64"
      unfolding a_def b_def by simp_all
    have f: "0xC0 + a < 256" "2 \<le> a" "a < 32" "0x80 + b < 256"
      using 2 c b by linarith+
    have enc: "encode_char c = [of_nat (0xC0 + a), of_nat (0x80 + b)]"
      using 2 by (simp add: encode_char_def a_def b_def)
    have "decode_char (of_nat (0xC0 + a)) (of_nat (0x80 + b) # rest) = Complete (64 * a + b) rest"
      by (rule decode_char_2 [OF u8 [OF f(1)] f(2) f(3) u8 [OF f(4)] b])
    then show ?thesis
      unfolding enc c [symmetric] by simp
  next
    case 3
    define a b d where "a = c div 4096" and "b = c div 64 mod 64" and "d = c mod 64"
    have c: "c = 4096 * a + 64 * b + d"
      unfolding a_def b_def d_def by (rule radix3)
    have l: "b < 64" "d < 64"
      unfolding b_def d_def by simp_all
    have f: "0xE0 + a < 256" "a < 16" "0x80 + b < 256" "0x80 + d < 256" "a = 0 \<longrightarrow> 32 \<le> b"
      using 3 c l by linarith+
    have g: "a = 13 \<longrightarrow> b < 32"
      using 3 assms c l unfolding is_scalar_def by linarith
    have enc: "encode_char c = [of_nat (0xE0 + a), of_nat (0x80 + b), of_nat (0x80 + d)]"
      using 3 by (simp add: encode_char_def a_def b_def d_def)
    have "decode_char (of_nat (0xE0 + a)) (of_nat (0x80 + b) # of_nat (0x80 + d) # rest) =
        Complete (4096 * a + 64 * b + d) rest"
      by (rule decode_char_3 [OF u8 [OF f(1)] f(2) u8 [OF f(3)] l(1) u8 [OF f(4)] l(2) f(5) g])
    then show ?thesis
      unfolding enc c [symmetric] by simp
  next
    case 4
    define a b d e where "a = c div 262144" and "b = c div 4096 mod 64"
      and "d = c div 64 mod 64" and "e = c mod 64"
    have c: "c = 262144 * a + 4096 * b + 64 * d + e"
      unfolding a_def b_def d_def e_def by (rule radix4)
    have l: "b < 64" "d < 64" "e < 64"
      unfolding b_def d_def e_def by simp_all
    have f: "0xF0 + a < 256" "a < 5" "0x80 + b < 256" "0x80 + d < 256" "0x80 + e < 256"
      "a = 0 \<longrightarrow> 16 \<le> b" "a = 4 \<longrightarrow> b < 16"
      using 4 c l by linarith+
    have enc: "encode_char c =
        [of_nat (0xF0 + a), of_nat (0x80 + b), of_nat (0x80 + d), of_nat (0x80 + e)]"
      using 4 by (simp add: encode_char_def a_def b_def d_def e_def)
    have "decode_char (of_nat (0xF0 + a))
          (of_nat (0x80 + b) # of_nat (0x80 + d) # of_nat (0x80 + e) # rest) =
        Complete (262144 * a + 4096 * b + 64 * d + e) rest"
      by (rule decode_char_4 [OF u8 [OF f(1)] f(2) u8 [OF f(3)] l(1) u8 [OF f(4)] l(2)
            u8 [OF f(5)] l(3) f(6) f(7)])
    then show ?thesis
      unfolding enc c [symmetric] by simp
  qed
qed

lemma utf_8_decode_encode:
  "utf_8_encode s = Inr bs \<Longrightarrow>
     utf_8_decode (bs @ rest) =
       (case utf_8_decode rest of Inl e \<Rightarrow> Inl e | Inr (t, buf) \<Rightarrow> Inr (s @ t, buf))"
proof (induction s arbitrary: bs)
  case Nil
  then show ?case by (auto split: sum.splits)
next
  case (Cons c cs)
  from Cons.prems obtain bs' where sc: "is_scalar c" and bs': "utf_8_encode cs = Inr bs'"
    and bs: "bs = encode_char c @ bs'"
    by (auto split: if_splits sum.splits)
  obtain b tl where e: "encode_char c = b # tl"
    and d: "decode_char b (tl @ bs' @ rest) = Complete c (bs' @ rest)"
    using decode_encode_char [OF sc, of "bs' @ rest"] by blast
  show ?case
    using Cons.IH [OF bs'] d by (auto simp: bs e split: sum.splits)
qed

corollary utf_8_decode_encode_whole:
  "utf_8_encode s = Inr bs \<Longrightarrow> utf_8_decode bs = Inr (s, [])"
  using utf_8_decode_encode [of s bs "[]"] by simp


lemma utf_8_decode_ascii:
  "\<forall>c\<in>set s. of_char c < (128::nat) \<Longrightarrow> utf_8_decode (ascii s) = Inr (ustr s, [])"
proof (induction s)
  case Nil
  then show ?case by (simp add: ascii_def ustr_def)
next
  case (Cons c s)
  have "unat (of_nat (of_char c) :: byte) = of_char c"
    using Cons.prems by (simp add: unat_of_nat)
  then have u: "unat (of_char c :: byte) = of_char c"
    by (simp add: of_nat_of_char)
  have "decode_char (of_char c) (ascii s) = Complete (of_char c) (ascii s)"
    using Cons.prems decode_char_1 [of "of_char c" "ascii s"] u by simp
  then show ?case
    using Cons by (simp add: ascii_def ustr_def)
qed

text \<open>
  The late judgement of an encoded surrogate: its first two bytes are buffered at the
  end of the data, and rejected when the third byte is there. A truncated overlong
  form is rejected at once.
\<close>

lemma utf_8_decode_truncated_surrogate:
  "utf_8_decode [0x41, 0xED, 0xA0] = Inr ([0x41], [0xED, 0xA0])"
  by (simp add: decode_char_def second_range_def)

lemma utf_8_decode_surrogate:
  "utf_8_decode [0x41, 0xED, 0xA0, 0x80] = Inl UnicodeDecodeError"
  by (simp add: decode_char_def second_range_def)

lemma utf_8_decode_truncated_overlong:
  "utf_8_decode [0x41, 0xE0, 0x80] = Inl UnicodeDecodeError"
  by (simp add: decode_char_def second_range_def)

section \<open>DecodingStreamReader: proofs\<close>

text \<open>
  C9. Take any string and cut its UTF-8 encoding into two chunks at any byte, inside a
  multi-byte character or not. A \<^verbatim>\<open>DecodingStreamReader\<close> whose stream delivers the
  first chunk and then the second returns, in two reads, two strings whose
  concatenation is the original string: neither read raises, no character is replaced,
  and nothing is left undecoded.
\<close>

theorem read_split_chunks:
  assumes "utf_8_encode s = Inr (c1 @ c2)"
  shows "\<exists>t1 t2 rd1 rd2.
           read (DecodingStreamReader_init [Bytes c1, Bytes c2]) n = (Inr t1, rd1) \<and>
           read rd1 m = (Inr t2, rd2) \<and> t1 @ t2 = s \<and> decoder rd2 = [] \<and> at_eof rd2"
proof -
  have whole: "utf_8_decode (c1 @ c2) = Inr (s, [])"
    using assms by (rule utf_8_decode_encode_whole)
  obtain t1 buf where first: "utf_8_decode c1 = Inr (t1, buf)"
  proof (cases "utf_8_decode c1")
    case (Inl e)
    from utf_8_decode_append_error [OF this, of c2] whole show ?thesis by simp
  next
    case (Inr p)
    then show ?thesis using that by (cases p) simp
  qed
  from utf_8_decode_append [OF first, of c2] whole
  obtain t2 where second: "utf_8_decode (buf @ c2) = Inr (t2, [])" and cat: "t1 @ t2 = s"
    by (auto split: sum.splits)
  define rd1 where "rd1 = \<lparr>stream = [Bytes c2], decoder = buf\<rparr>"
  define rd2 where "rd2 = \<lparr>stream = [], decoder = ([] :: byte list)\<rparr>"
  have 1: "read (DecodingStreamReader_init [Bytes c1, Bytes c2]) n = (Inr t1, rd1)"
    using first by (simp add: read_def DecodingStreamReader_init_def stream_read_def rd1_def)
  have 2: "read rd1 m = (Inr t2, rd2)"
    using second by (simp add: read_def stream_read_def rd1_def rd2_def)
  have 3: "decoder rd2 = []" "at_eof rd2"
    by (simp_all add: rd2_def at_eof_def stream_at_eof_def)
  from 1 2 cat 3 show ?thesis by blast
qed

text \<open>
  The euro sign, U+20AC, is the three bytes E2 82 AC. Cut after the first byte, the
  first read returns the empty string and the second the euro sign.
\<close>

theorem read_split_chunks_witness:
  "utf_8_encode [0x20AC] = Inr ([0xE2] @ [0x82, 0xAC]) \<and>
   (\<exists>t1 t2 rd1 rd2.
      read (DecodingStreamReader_init [Bytes [0xE2], Bytes [0x82, 0xAC]]) (- 1) = (Inr t1, rd1) \<and>
      read rd1 (- 1) = (Inr t2, rd2) \<and> t1 @ t2 = [0x20AC] \<and> decoder rd2 = [] \<and> at_eof rd2)"
proof -
  have h: "utf_8_encode [0x20AC] = Inr ([0xE2] @ [0x82, 0xAC])"
    by (simp add: is_scalar_def encode_char_def)
  show ?thesis
    using h read_split_chunks [OF h, of "- 1" "- 1"] by simp
qed

lemma read_euro_first:
  "read (DecodingStreamReader_init [Bytes [0xE2], Bytes [0x82, 0xAC]]) (- 1) =
     (Inr [], \<lparr>stream = [Bytes [0x82, 0xAC]], decoder = [0xE2]\<rparr>)"
  by (simp add: read_def DecodingStreamReader_init_def stream_read_def decode_char_def)

lemma read_euro_second:
  "read \<lparr>stream = [Bytes [0x82, 0xAC]], decoder = [0xE2]\<rparr> (- 1) =
     (Inr [0x20AC], \<lparr>stream = [], decoder = []\<rparr>)"
  by (simp add: read_def stream_read_def decode_char_def second_range_def is_continuation_def)

text \<open>A chunk that arrives as \<^verbatim>\<open>str\<close> is returned as it is, and the decoder is not touched.\<close>

lemma read_text_chunk:
  "read \<lparr>stream = Text t # s, decoder = buf\<rparr> n = (Inr t, \<lparr>stream = s, decoder = buf\<rparr>)"
  by (simp add: read_def stream_read_def)

section \<open>The retry loop: proofs\<close>

lemma retry_get_raises:
  "srv k = Raises e \<Longrightarrow> retry_get sts srv k left = (Inl e, k)"
  by (cases left) simp_all

lemma retry_get_not_retryable:
  "srv k = Responds r \<Longrightarrow> status r \<notin> set sts \<Longrightarrow> retry_get sts srv k left = (Inr r, k)"
  by (cases left) simp_all

lemma retry_get_bound: "snd (retry_get sts srv k left) \<le> k + left"
proof (induction left arbitrary: k)
  case 0
  then show ?case by (simp split: attempt.splits)
next
  case (Suc left)
  show ?case using Suc [of "Suc k"] by (simp split: attempt.splits)
qed

lemma retry_get_exhausted:
  "(\<And>j. \<exists>r. srv j = Responds r \<and> status r \<in> set sts) \<Longrightarrow>
     \<exists>r. retry_get sts srv k left = (Inr r, k + left) \<and> status r \<in> set sts"
proof (induction left arbitrary: k)
  case 0
  then obtain r where "srv k = Responds r" "status r \<in> set sts" by blast
  then show ?case by simp
next
  case (Suc left)
  obtain r where r: "srv k = Responds r" "status r \<in> set sts"
    using Suc.prems by blast
  obtain r' where "retry_get sts srv (Suc k) left = (Inr r', Suc k + left)" "status r' \<in> set sts"
    using Suc.IH [OF Suc.prems] by blast
  with r show ?case by simp
qed

text \<open>
  The scenario of the specification: two answers 503, then 200. With three attempts
  allowed the third answer is returned, after exactly three attempts.
\<close>

lemma session_get_third_time:
  "session_get \<lparr>attempts = 3, statuses = [502, 503, 504]\<rparr>
     (\<lambda>k. Responds \<lparr>status = (if k < 3 then 503 else 200), content = [Bytes body]\<rparr>) =
     (Inr \<lparr>status = 200, content = [Bytes body]\<rparr>, 3)"
  by (simp add: session_get_def numeral_2_eq_2)

section \<open>The mock server: evaluation\<close>

lemma session_get_mock_server:
  "st \<notin> set (statuses opts) \<Longrightarrow>
     session_get opts (mock_server st body url) =
       (Inr \<lparr>status = st, content = [Bytes body]\<rparr>, 1)"
  by (simp add: session_get_def mock_server_def retry_get_not_retryable)

lemma session_get_mock:
  "st \<notin> set (statuses opts) \<Longrightarrow>
     session_get opts (server (mock st body) url) =
       (Inr \<lparr>status = st, content = [Bytes (ascii body)]\<rparr>, 1)"
  by (simp add: mock_def mock_bytes_def session_get_mock_server)

lemma read_mock:
  "\<forall>c\<in>set body. of_char c < (128::nat) \<Longrightarrow>
     read (DecodingStreamReader_init [Bytes (ascii body)]) n =
       (Inr (ustr body), \<lparr>stream = [], decoder = []\<rparr>)"
  by (simp add: read_def DecodingStreamReader_init_def stream_read_def utf_8_decode_ascii)

lemma read_json_mock:
  "\<forall>c\<in>set body. of_char c < (128::nat) \<Longrightarrow>
     read_json (mock st' body') [Bytes (ascii body)] =
       (case mock_loads (ustr body) of
          None \<Rightarrow> Inl (JSONDecodeError (ustr body))
        | Some j \<Rightarrow> Inr j, [])"
  by (simp add: read_json_def read_mock json_loads_def mock_def mock_bytes_def)

lemma mock_loads_not_found: "mock_loads (ustr ''{\"error\": \"not found\"}'') = Some not_found"
  by (simp add: mock_loads_def)

lemma mock_loads_data:
  "mock_loads (ustr ''{\"data\": {\"active_cryptocurrencies\": 100}}'') =
     Some (JObject [(ustr ''data'', active_100)])"
  by (simp add: mock_loads_def ustr_def)

lemma mock_loads_list: "mock_loads (ustr ''[]'') = Some (JArray [])"
  by (simp add: mock_loads_def ustr_def)

lemma mock_loads_oops: "mock_loads (ustr ''oops'') = None"
  by (simp add: mock_loads_def ustr_def)

lemma mock_loads_empty: "mock_loads [] = None"
  by (simp add: mock_loads_def ustr_def)

lemma loads_mock: "loads (mock st body) = mock_loads"
  by (simp add: mock_def mock_bytes_def)

section \<open>The request executor: proofs\<close>

lemma request_attempts:
  "snd (request self env url) = snd (session_get (retry_options self) (server env url))"
  by (simp add: request_def split: prod.splits sum.splits)

lemma read_json_not_json:
  assumes "read (DecodingStreamReader_init s) (- 1) = (Inr doc, rd)" "loads env doc = None"
  shows "read_json env s = (Inl (JSONDecodeError doc), stream rd)"
  using assms by (simp add: read_json_def json_loads_def)


lemma read_json_empty:
  "loads env [] = None \<Longrightarrow> read_json env [] = (Inl (JSONDecodeError []), [])"
  by (simp add: read_json_def read_def DecodingStreamReader_init_def stream_read_def
      json_loads_def)



lemma read_json_Failure: "read_json env (Failure e # s) = (Inl e, Failure e # s)"
  by (simp add: read_json_def read_def DecodingStreamReader_init_def stream_read_def)

lemma read_json_ok:
  "fst (read_json env s) = Inr j \<Longrightarrow> stream_exception s = None"
proof (cases s)
  case Nil
  then show ?thesis by (simp add: stream_exception_def)
next
  case (Cons c cs)
  assume "fst (read_json env s) = Inr j"
  with Cons show ?thesis
    by (cases c) (simp_all add: stream_exception_def read_json_Failure)
qed

text \<open>
  Whenever the status check fails, the handler finds \<^verbatim>\<open>response.content\<close> closed by the
  \<^verbatim>\<open>release()\<close> inside \<^verbatim>\<open>raise_for_status()\<close>: its read on line 46 raises
  \<^verbatim>\<open>ClientConnectionError\<close>, which is no \<^verbatim>\<open>JSONDecodeError\<close>, and neither line 48 nor
  line 51 is reached.
\<close>

lemma request_status_failure:
  assumes "fst (session_get (retry_options self) (server env url)) = Inr r"
    and "400 \<le> status r"
    and "stream_exception (content r) = None"
  shows "fst (request self env url) = Inl ClientConnectionError"
proof -
  obtain n where g: "session_get (retry_options self) (server env url) = (Inr r, n)"
    using assms(1) by (cases "session_get (retry_options self) (server env url)") simp
  have s: "raise_for_status r =
      (Inl (ClientResponseError (status r)), r\<lparr>content := Failure ClientConnectionError # content r\<rparr>)"
    using assms(2,3) by (simp add: raise_for_status_def release_def)
  show ?thesis
    by (simp add: request_def g s handler_def read_json_Failure)
qed

text \<open>
  C1. The claim is that a response with a failing, non-retryable status such as 404,
  whose body parses as JSON, makes \<^verbatim>\<open>__request\<close> raise \<^verbatim>\<open>ValueError\<close> with the parsed
  body. It does not: whatever the body would have parsed to, the caller sees the
  \<^verbatim>\<open>ClientConnectionError\<close> of the read on line 46.
\<close>

theorem request_api_error_lost:
  assumes "fst (session_get (retry_options self) (server env url)) = Inr r"
    and "400 \<le> status r"
    and "fst (read_json env (content r)) = Inr j"
  shows "fst (request self env url) = Inl ClientConnectionError \<and>
         fst (request self env url) \<noteq> Inl (ValueError j)"
  using request_status_failure [OF assms(1,2) read_json_ok [OF assms(3)]] by simp

text \<open>
  Status 404 with the body \<^verbatim>\<open>{"error": "not found"}\<close>, on the default client: one
  attempt, and \<^verbatim>\<open>ClientConnectionError\<close>.
\<close>

theorem request_api_error_lost_witness:
  "fst (session_get (retry_options client)
         (server (mock 404 ''{\"error\": \"not found\"}'') (API_URL_BASE @ ''coins/nocoin'')))
     = Inr \<lparr>status = 404, content = [Bytes (ascii ''{\"error\": \"not found\"}'')]\<rparr> \<and>
   fst (read_json (mock 404 ''{\"error\": \"not found\"}'')
         [Bytes (ascii ''{\"error\": \"not found\"}'')]) = Inr not_found \<and>
   request client (mock 404 ''{\"error\": \"not found\"}'') (API_URL_BASE @ ''coins/nocoin'')
     = (Inl ClientConnectionError, 1)"
proof -
  let ?env = "mock 404 ''{\"error\": \"not found\"}''"
  let ?url = "API_URL_BASE @ ''coins/nocoin''"
  let ?r = "\<lparr>status = 404, content = [Bytes (ascii ''{\"error\": \"not found\"}'')]\<rparr>"
  have g: "session_get (retry_options client) (server ?env ?url) = (Inr ?r, 1)"
    by (rule session_get_mock) (simp add: client_def CoinGeckoAPI_init_def)
  have 1: "fst (session_get (retry_options client) (server ?env ?url)) = Inr ?r"
    by (simp add: g)
  have 2: "400 \<le> status ?r"
    by simp
  have 3: "fst (read_json ?env (content ?r)) = Inr not_found"
    by (simp add: read_json_mock mock_loads_not_found)
  have n: "snd (request client ?env ?url) = 1"
    by (simp add: request_attempts g)
  show ?thesis
    using 1 3 n request_api_error_lost [OF 1 2 3]
    by (cases "request client ?env ?url") simp
qed

text \<open>
  C2. The claim is that a failed status check on a response whose body is not valid
  JSON ends in the original \<^verbatim>\<open>ClientResponseError\<close>, raised again by line 51. It does
  not: for every body the caller sees the \<^verbatim>\<open>ClientConnectionError\<close> of the read on
  line 46, and the bare \<^verbatim>\<open>raise\<close> is never reached after a failed status check.
\<close>

theorem request_original_error_lost:
  assumes "fst (session_get (retry_options self) (server env url)) = Inr r"
    and "400 \<le> status r"
    and "stream_exception (content r) = None"
  shows "fst (request self env url) = Inl ClientConnectionError \<and>
         fst (request self env url) \<noteq> Inl (ClientResponseError (status r))"
  using request_status_failure [OF assms] by simp

text \<open>
  Status 500 with the body \<^verbatim>\<open>oops\<close>, which is text that \<^verbatim>\<open>json.loads\<close> rejects.
\<close>

theorem request_original_error_lost_witness:
  "fst (session_get (retry_options client) (server (mock 500 ''oops'') (API_URL_BASE @ ''ping'')))
     = Inr \<lparr>status = 500, content = [Bytes (ascii ''oops'')]\<rparr> \<and>
   \<not> valid_json (mock 500 ''oops'') (ascii ''oops'') \<and>
   fst (request client (mock 500 ''oops'') (API_URL_BASE @ ''ping'')) = Inl ClientConnectionError"
proof -
  let ?env = "mock 500 ''oops''"
  let ?url = "API_URL_BASE @ ''ping''"
  let ?r = "\<lparr>status = 500, content = [Bytes (ascii ''oops'')]\<rparr>"
  have g: "session_get (retry_options client) (server ?env ?url) = (Inr ?r, 1)"
    by (rule session_get_mock) (simp add: client_def CoinGeckoAPI_init_def)
  have 1: "fst (session_get (retry_options client) (server ?env ?url)) = Inr ?r"
    by (simp add: g)
  have 2: "400 \<le> status ?r"
    by simp
  have 3: "stream_exception (content ?r) = None"
    by (simp add: stream_exception_def)
  have 4: "\<not> valid_json ?env (ascii ''oops'')"
    by (simp add: valid_json_def bytes_decode_def utf_8_decode_ascii loads_mock mock_loads_oops)
  show ?thesis
    using 1 4 request_original_error_lost [OF 1 2 3] by simp
qed

text \<open>
  C3. The claim is that a GET that fails at the network level, before any response
  exists, reaches the caller as it is. It does not: the handler reads
  \<^verbatim>\<open>response.content\<close> while \<^verbatim>\<open>response\<close> is unbound, and the caller sees
  \<^verbatim>\<open>UnboundLocalError\<close> whatever the GET raised. One attempt is made.
\<close>

theorem request_connection_failure:
  assumes "server env url 1 = Raises e"
  shows "request self env url = (Inl UnboundLocalError, 1)"
  using retry_get_raises [of "server env url" 1 e, OF assms]
  by (simp add: request_def session_get_def handler_def)

text \<open>A server that refuses the connection.\<close>

theorem request_connection_failure_witness:
  "server refusing (API_URL_BASE @ ''ping'') 1 = Raises ClientConnectionError \<and>
   request client refusing (API_URL_BASE @ ''ping'') = (Inl UnboundLocalError, 1)"
  using request_connection_failure
    [of refusing "API_URL_BASE @ ''ping''" ClientConnectionError client]
  by (simp add: refusing_def refusing_server_def)

text \<open>The same holds when a later attempt is the one that raises.\<close>

lemma request_get_raises:
  "session_get (retry_options self) (server env url) = (Inl e, n) \<Longrightarrow>
     request self env url = (Inl UnboundLocalError, n)"
  by (simp add: request_def handler_def)

text \<open>
  C4. With the retryable set 502, 503, 504 and a server that answers every attempt with
  a status of that set, \<^verbatim>\<open>__request\<close> makes exactly as many attempts as
  \<^verbatim>\<open>retry_options\<close> allows (5 by default) and then raises. Whatever the server does,
  it never makes more attempts than that.
\<close>

theorem retry_bound:
  assumes "statuses (retry_options self) = [502, 503, 504]"
    and "1 \<le> attempts (retry_options self)"
    and "\<forall>k. \<exists>r. server env url k = Responds r \<and> status r \<in> {502, 503, 504}"
  shows "snd (request self env url) = attempts (retry_options self) \<and>
         (\<exists>e. fst (request self env url) = Inl e) \<and>
         (\<forall>env' url'. snd (request self env' url') \<le> attempts (retry_options self))"
proof -
  let ?opts = "retry_options self"
  have "\<exists>r. server env url j = Responds r \<and> status r \<in> set (statuses ?opts)" for j
    using assms(1,3) by simp
  from retry_get_exhausted [of "server env url" "statuses ?opts" 1 "attempts ?opts - 1", OF this]
  obtain r where r: "session_get ?opts (server env url) = (Inr r, attempts ?opts)"
    "status r \<in> set (statuses ?opts)"
    using assms(2) by (auto simp: session_get_def)
  have s: "400 \<le> status r"
    using r(2) assms(1) by auto
  have a: "snd (request self env url) = attempts ?opts"
    using r(1) by (simp add: request_attempts)
  have b: "\<exists>e. fst (request self env url) = Inl e"
    using r(1) s by (simp add: request_def raise_for_status_def)
  have c: "snd (request self env' url') \<le> attempts ?opts" for env' url'
    using retry_get_bound [of "statuses ?opts" "server env' url'" 1 "attempts ?opts - 1"] assms(2)
    by (simp add: request_attempts session_get_def)
  from a b c show ?thesis by blast
qed

text \<open>A server that always answers 503, and the default client: five attempts.\<close>

theorem retry_bound_witness:
  "statuses (retry_options client) = [502, 503, 504] \<and>
   1 \<le> attempts (retry_options client) \<and>
   (\<forall>k. \<exists>r. server (mock 503 ''oops'') (API_URL_BASE @ ''ping'') k = Responds r \<and>
      status r \<in> {502, 503, 504}) \<and>
   snd (request client (mock 503 ''oops'') (API_URL_BASE @ ''ping'')) = 5 \<and>
   (\<exists>e. fst (request client (mock 503 ''oops'') (API_URL_BASE @ ''ping'')) = Inl e) \<and>
   (\<forall>env' url'. snd (request client env' url') \<le> 5)"
proof -
  have 1: "statuses (retry_options client) = [502, 503, 504]"
    by (simp add: client_def CoinGeckoAPI_init_def)
  have 2: "1 \<le> attempts (retry_options client)"
    by (simp add: client_def CoinGeckoAPI_init_def)
  have 3: "\<forall>k. \<exists>r. server (mock 503 ''oops'') (API_URL_BASE @ ''ping'') k = Responds r \<and>
      status r \<in> {502, 503, 504}"
    by (simp add: mock_def mock_bytes_def mock_server_def)
  have 5: "attempts (retry_options client) = 5"
    by (simp add: client_def CoinGeckoAPI_init_def)
  show ?thesis
    using 1 2 3 retry_bound [OF 1 2 3] unfolding 5 by simp
qed




text \<open>
  Status 200 with the one-byte body \<^verbatim>\<open>FF\<close>: the original failure is the
  \<^verbatim>\<open>UnicodeDecodeError\<close> of line 41.
\<close>

lemma request_success_undecodable:
  "request client (mock_bytes 200 [0xFF]) (API_URL_BASE @ ''ping'') = (Inl UnicodeDecodeError, 1)"
proof -
  let ?env = "mock_bytes 200 [0xFF]"
  have 1: "session_get (retry_options client) (server ?env (API_URL_BASE @ ''ping''))
     = (Inr \<lparr>status = 200, content = [Bytes [0xFF]]\<rparr>, 1)"
    unfolding mock_bytes_def environment.simps
    by (rule session_get_mock_server) (simp add: client_def CoinGeckoAPI_init_def)
  have 2: "read_json ?env [Bytes [0xFF]] = (Inl UnicodeDecodeError, [])"
    by (simp add: read_json_def read_def DecodingStreamReader_init_def stream_read_def
        decode_char_def)
  have 3: "read_json ?env [] = (Inl (JSONDecodeError []), [])"
    by (rule read_json_empty) (simp add: mock_bytes_def mock_loads_empty)
  show ?thesis
    by (simp add: request_def 1 2 3 raise_for_status_def handler_def)
qed

text \<open>A response that passes the status check and parses is returned as it is.\<close>

lemma request_success:
  assumes "session_get (retry_options self) (server env url) = (Inr r, n)"
    and "status r < 400"
    and "fst (read_json env (content r)) = Inr j"
  shows "request self env url = (Inr j, n)"
  using assms by (auto simp: request_def raise_for_status_def split: prod.splits)

section \<open>Endpoint methods: proofs\<close>

text \<open>
  C7. \<^verbatim>\<open>get_price(ids="bitcoin, ethereum", vs_currencies="usd")\<close> runs the request
  executor on the base URL followed by
  \<^verbatim>\<open>simple/price?ids=bitcoin,ethereum&vs_currencies=usd\<close>: the space is gone from the
  list-like argument, the pairs are joined by \<^verbatim>\<open>&\<close>, and no \<^verbatim>\<open>&\<close> ends the URL.
\<close>

theorem get_price_url:
  "get_price self env (Plain (PStr ''bitcoin, ethereum'')) (Plain (PStr ''usd'')) [] =
     request self env (api_base_url self @ ''simple/price?ids=bitcoin,ethereum&vs_currencies=usd'')"
  by (simp add: get_price_def list_arg_to_comma_separated_def replace_space_def
      api_url_params_def format_param_def butlast_append)

text \<open>A list of identifiers is joined by commas by the decorator, and gives the same URL.\<close>

lemma get_price_url_list:
  "get_price self env (ListArg [''bitcoin'', ''ethereum'']) (ListArg [''usd'']) [] =
     request self env (api_base_url self @ ''simple/price?ids=bitcoin,ethereum&vs_currencies=usd'')"
  by (simp add: get_price_def list_arg_to_comma_separated_def replace_space_def
      api_url_params_def format_param_def butlast_append)

text \<open>
  The methods written as \<^verbatim>\<open>return await self.__request(api_url)\<close> return what the
  executor returns, and raise what it raises.
\<close>

lemma ping_delegates:
  "ping self env = request self env (api_base_url self @ ''ping'')"
  by (simp add: ping_def)

lemma get_supported_vs_currencies_delegates:
  "get_supported_vs_currencies self env kwargs =
     request self env
       (api_url_params (api_base_url self @ ''simple/supported_vs_currencies'') kwargs)"
  by (simp add: get_supported_vs_currencies_def)

text \<open>
  C6. The claim is that every endpoint method but the two unwrapping ones, and
  \<^verbatim>\<open>get_coins_list\<close> in particular, returns the executor's result unchanged whenever the
  executor succeeds. \<^verbatim>\<open>get_coins_list\<close> does not: whatever the server answers, it raises
  \<^verbatim>\<open>NameError\<close> and no HTTP attempt is made.
\<close>

theorem get_coins_list_raises_NameError:
  "get_coins_list self env kwargs = (Inl NameError, 0)"
  by (simp add: get_coins_list_def load_global_def module_globals_def)

text \<open>
  A server that answers \<^verbatim>\<open>coins/list\<close> with status 200 and the body \<^verbatim>\<open>[]\<close>: the executor
  returns the empty list, \<^verbatim>\<open>get_coins_list\<close> raises.
\<close>

theorem get_coins_list_raises_NameError_witness:
  "request client (mock 200 ''[]'') (API_URL_BASE @ ''coins/list'') = (Inr (JArray []), 1) \<and>
   get_coins_list client (mock 200 ''[]'') [] = (Inl NameError, 0)"
proof -
  let ?env = "mock 200 ''[]''"
  have 1: "session_get (retry_options client) (server ?env (API_URL_BASE @ ''coins/list''))
      = (Inr \<lparr>status = 200, content = [Bytes (ascii ''[]'')]\<rparr>, 1)"
    by (rule session_get_mock) (simp add: client_def CoinGeckoAPI_init_def)
  have 2: "request client ?env (API_URL_BASE @ ''coins/list'') = (Inr (JArray []), 1)"
    by (simp add: request_def 1 raise_for_status_def read_json_mock mock_loads_list)
  show ?thesis
    using 2 get_coins_list_raises_NameError [of client ?env "[]"] by simp
qed

text \<open>
  C5. The claim is that \<^verbatim>\<open>get_global\<close> and \<^verbatim>\<open>get_global_decentralized_finance_defi\<close>
  return the value under the key \<^verbatim>\<open>data\<close> of a successful response. Both raise
  \<^verbatim>\<open>TypeError\<close> instead, whatever the server answers, and no HTTP attempt is made.
\<close>

theorem get_global_raises_TypeError:
  "get_global self env kwargs = (Inl TypeError, 0) \<and>
   get_global_decentralized_finance_defi self env kwargs = (Inl TypeError, 0)"
  by (simp add: get_global_def get_global_decentralized_finance_defi_def)

text \<open>
  A server that answers \<^verbatim>\<open>global\<close> with status 200 and the body
  \<^verbatim>\<open>{"data": {"active_cryptocurrencies": 100}}\<close>: the executor returns the enveloped
  object, in which \<^verbatim>\<open>data\<close> is present, and \<^verbatim>\<open>get_global\<close> raises.
\<close>

theorem get_global_raises_TypeError_witness:
  "request client (mock 200 ''{\"data\": {\"active_cryptocurrencies\": 100}}'')
       (API_URL_BASE @ ''global'')
     = (Inr (JObject [(ustr ''data'', active_100)]), 1) \<and>
   getitem (Data (JObject [(ustr ''data'', active_100)])) (ustr ''data'') = Inr (Data active_100) \<and>
   get_global client (mock 200 ''{\"data\": {\"active_cryptocurrencies\": 100}}'') []
     = (Inl TypeError, 0)"
proof -
  let ?env = "mock 200 ''{\"data\": {\"active_cryptocurrencies\": 100}}''"
  have 1: "session_get (retry_options client) (server ?env (API_URL_BASE @ ''global''))
      = (Inr \<lparr>status = 200,
              content = [Bytes (ascii ''{\"data\": {\"active_cryptocurrencies\": 100}}'')]\<rparr>, 1)"
    by (rule session_get_mock) (simp add: client_def CoinGeckoAPI_init_def)
  have 2: "request client ?env (API_URL_BASE @ ''global'')
      = (Inr (JObject [(ustr ''data'', active_100)]), 1)"
    by (simp add: request_def 1 raise_for_status_def read_json_mock mock_loads_data)
  show ?thesis
    using 2 get_global_raises_TypeError [of client ?env "[]"] by simp
qed

end
